theory Spec2Isabelle
  imports Complex_Main
begin

section \<open>Common data model\<close>

text \<open>
  Python floats are modelled as \<^typ>\<open>real\<close>: every property below is about the
  arithmetic the code writes down, not about rounding.  A \<^verbatim>\<open>datetime\<close> is the
  number of microseconds since \<^verbatim>\<open>datetime.min\<close>; a \<^verbatim>\<open>timedelta\<close> is a
  difference of two such numbers, and \<^verbatim>\<open>total_seconds()\<close> divides it by
  \<open>10\<^sup>6\<close>.
\<close>

type_synonym datetime = int

definition total_seconds :: "int \<Rightarrow> real" where
  "total_seconds d = real_of_int d / 1000000"

datatype PositionSide = LONG | SHORT

record Trade =
  pair_id :: string
  symbol_a :: string
  symbol_b :: string
  side_a :: PositionSide
  side_b :: PositionSide
  size_a :: real
  size_b :: real
  entry_price_a :: real
  entry_price_b :: real
  exit_price_a :: real
  exit_price_b :: real
  hedge_ratio :: real
  entry_zscore :: real
  exit_zscore :: real
  entry_time :: datetime
  exit_time :: datetime
  duration_minutes :: real
  pnl :: real
  pnl_percent :: real
  commission :: real
  reason :: string

text \<open>
  \<^verbatim>\<open>max_profit_pct\<close> is not a declared field of the source's position: the risk agent
  attaches it with \<^verbatim>\<open>hasattr\<close>/assignment, so it is optional here.
\<close>

record Position =
  pair_id :: string
  symbol_a :: string
  symbol_b :: string
  side_a :: PositionSide
  side_b :: PositionSide
  size_a :: real
  size_b :: real
  entry_price_a :: real
  entry_price_b :: real
  current_price_a :: real
  current_price_b :: real
  hedge_ratio :: real
  entry_zscore :: real
  current_zscore :: real
  entry_time :: datetime
  unrealized_pnl :: real
  status :: string
  max_profit_pct :: "real option"

section \<open>PositionManager (src/execution/position\_manager.py)\<close>

record PositionManager =
  open_positions :: "string \<rightharpoonup> Position"
  closed_trades :: "Trade list"
  daily_pnl :: real
  total_pnl :: real

definition init_PositionManager :: PositionManager where
  "init_PositionManager =
     \<lparr> open_positions = Map.empty, closed_trades = [], daily_pnl = 0, total_pnl = 0 \<rparr>"

text \<open>\<^verbatim>\<open>_calculate_pnl\<close>; the source's final \<^verbatim>\<open>else\<close> (a side that is neither enum
  member) has no value in the datatype.\<close>

fun calculate_pnl :: "PositionSide \<Rightarrow> real \<Rightarrow> real \<Rightarrow> real \<Rightarrow> real" where
  "calculate_pnl LONG entry_price current_price sz = (current_price - entry_price) * sz"
| "calculate_pnl SHORT entry_price current_price sz = (entry_price - current_price) * sz"

text \<open>\<^verbatim>\<open>add_position\<close>: builds the position and stores it under \<^verbatim>\<open>pair_id\<close> by plain
  dictionary assignment.  \<open>now\<close> is the value of \<^verbatim>\<open>datetime.now()\<close>.\<close>

definition new_position ::
  "string \<Rightarrow> string \<Rightarrow> string \<Rightarrow> PositionSide \<Rightarrow> PositionSide \<Rightarrow> real \<Rightarrow> real \<Rightarrow>
   real \<Rightarrow> real \<Rightarrow> real \<Rightarrow> real \<Rightarrow> datetime \<Rightarrow> Position" where
  "new_position pid sym_a sym_b sd_a sd_b sz_a sz_b price_a price_b hr z now =
     \<lparr> pair_id = pid, symbol_a = sym_a, symbol_b = sym_b, side_a = sd_a, side_b = sd_b,
       size_a = sz_a, size_b = sz_b, entry_price_a = price_a, entry_price_b = price_b,
       current_price_a = price_a, current_price_b = price_b, hedge_ratio = hr,
       entry_zscore = z, current_zscore = z, entry_time = now, unrealized_pnl = 0,
       status = ''open'', max_profit_pct = None \<rparr>"

definition add_position ::
  "PositionManager \<Rightarrow> string \<Rightarrow> string \<Rightarrow> string \<Rightarrow> PositionSide \<Rightarrow> PositionSide \<Rightarrow>
   real \<Rightarrow> real \<Rightarrow> real \<Rightarrow> real \<Rightarrow> real \<Rightarrow> real \<Rightarrow> datetime \<Rightarrow> Position \<times> PositionManager" where
  "add_position s pid sym_a sym_b sd_a sd_b sz_a sz_b price_a price_b hr z now =
     (let position = new_position pid sym_a sym_b sd_a sd_b sz_a sz_b price_a price_b hr z now
      in (position, s\<lparr>open_positions := (open_positions s)(pid \<mapsto> position)\<rparr>))"

text \<open>\<^verbatim>\<open>update_position\<close>: two early returns, then four field assignments on the stored
  position.\<close>

definition update_position ::
  "PositionManager \<Rightarrow> string \<Rightarrow> real \<Rightarrow> real \<Rightarrow> real \<Rightarrow> PositionManager" where
  "update_position s pid price_a price_b z =
     (case open_positions s pid of
        None \<Rightarrow> s
      | Some position \<Rightarrow>
          if price_a \<le> 0 \<or> price_b \<le> 0 then s
          else
            let pnl_a = calculate_pnl (side_a position) (entry_price_a position) price_a
                          (size_a position);
                pnl_b = calculate_pnl (side_b position) (entry_price_b position) price_b
                          (size_b position);
                position' = position\<lparr>current_price_a := price_a, current_price_b := price_b,
                                       current_zscore := z, unrealized_pnl := pnl_a + pnl_b\<rparr>
            in s\<lparr>open_positions := (open_positions s)(pid \<mapsto> position')\<rparr>)"

text \<open>
  \<^verbatim>\<open>close_position\<close>.  The two calls of \<^verbatim>\<open>datetime.now()\<close> are the parameters
  \<open>now_duration\<close> and \<open>now_exit\<close>.  The hand-over of the trade to the performance
  tracker sits in an exception handler that swallows every failure and touches no
  field of the manager, so it is not part of the state here.
\<close>

definition commission_rate :: real where
  "commission_rate = 0.0006"

definition close_trade ::
  "Position \<Rightarrow> string \<Rightarrow> real \<Rightarrow> real \<Rightarrow> real \<Rightarrow> string \<Rightarrow> datetime \<Rightarrow> datetime \<Rightarrow> Trade" where
  "close_trade position pid exit_a exit_b exit_z rsn now_duration now_exit =
     (let pnl_a = calculate_pnl (side_a position) (entry_price_a position) exit_a (size_a position);
          pnl_b = calculate_pnl (side_b position) (entry_price_b position) exit_b (size_b position);
          total = pnl_a + pnl_b;
          position_value_a = size_a position * exit_a;
          position_value_b = size_b position * exit_b;
          comm = (position_value_a + position_value_b) * commission_rate * 2;
          net_pnl = total - comm;
          duration = total_seconds (now_duration - entry_time position) / 60;
          initial_value = size_a position * entry_price_a position
                          + size_b position * entry_price_b position;
          pct = (if initial_value > 0 then net_pnl / initial_value * 100 else 0)
      in \<lparr> Trade.pair_id = pid,
           Trade.symbol_a = symbol_a position,
           Trade.symbol_b = symbol_b position,
           Trade.side_a = side_a position,
           Trade.side_b = side_b position,
           Trade.size_a = size_a position,
           Trade.size_b = size_b position,
           Trade.entry_price_a = entry_price_a position,
           Trade.entry_price_b = entry_price_b position,
           exit_price_a = exit_a,
           exit_price_b = exit_b,
           Trade.hedge_ratio = hedge_ratio position,
           Trade.entry_zscore = entry_zscore position,
           exit_zscore = exit_z,
           Trade.entry_time = entry_time position,
           exit_time = now_exit,
           duration_minutes = duration,
           pnl = net_pnl,
           pnl_percent = pct,
           commission = comm,
           reason = rsn \<rparr>)"

definition close_position ::
  "PositionManager \<Rightarrow> string \<Rightarrow> real \<Rightarrow> real \<Rightarrow> real \<Rightarrow> string \<Rightarrow> datetime \<Rightarrow> datetime \<Rightarrow>
   Trade option \<times> PositionManager" where
  "close_position s pid exit_a exit_b exit_z rsn now_duration now_exit =
     (case open_positions s pid of
        None \<Rightarrow> (None, s)
      | Some position \<Rightarrow>
          let trade = close_trade position pid exit_a exit_b exit_z rsn now_duration now_exit
          in (Some trade,
              s\<lparr>closed_trades := closed_trades s @ [trade],
                daily_pnl := daily_pnl s + pnl trade,
                total_pnl := total_pnl s + pnl trade,
                open_positions := (open_positions s)(pid := None)\<rparr>))"

text \<open>The two notionals the specification's commission formula speaks of.\<close>

definition entry_notional :: "Position \<Rightarrow> real" where
  "entry_notional p = size_a p * entry_price_a p + size_b p * entry_price_b p"

definition exit_notional :: "Position \<Rightarrow> real \<Rightarrow> real \<Rightarrow> real" where
  "exit_notional p exit_a exit_b = size_a p * exit_a + size_b p * exit_b"

section \<open>OrderRateLimiter (src/execution/rate\_limiter.py)\<close>

text \<open>
  \<^verbatim>\<open>recent_orders\<close> is a \<^verbatim>\<open>deque(maxlen=max_orders_per_minute)\<close>: appending to a full
  deque drops its leftmost element.
\<close>

record OrderRateLimiter =
  max_orders_per_second :: nat
  max_orders_per_minute :: nat
  recent_orders :: "datetime list"
  in_cooldown :: bool
  cooldown_until :: "datetime option"
  consecutive_errors :: nat
  base_cooldown_seconds :: real
  max_cooldown_seconds :: real

definition init_OrderRateLimiter :: OrderRateLimiter where
  "init_OrderRateLimiter =
     \<lparr> max_orders_per_second = 5, max_orders_per_minute = 100, recent_orders = [],
       in_cooldown = False, cooldown_until = None, consecutive_errors = 0,
       base_cooldown_seconds = 2, max_cooldown_seconds = 30 \<rparr>"

definition deque_append :: "nat \<Rightarrow> 'a list \<Rightarrow> 'a \<Rightarrow> 'a list" where
  "deque_append maxlen xs x = (let ys = xs @ [x] in drop (length ys - maxlen) ys)"

text \<open>
  \<^verbatim>\<open>acquire\<close>, for the value \<open>now\<close> that \<^verbatim>\<open>datetime.now()\<close> returns on entry.  The
  result is the returned flag, the time spent in the two \<^verbatim>\<open>asyncio.sleep\<close> calls (in
  seconds) and the limiter afterwards.  Sleeping changes no field: after either sleep
  the code goes on with the values it computed before.  The two limits are set by the
  constructor (5 and 100) and never assigned again, so the division has a non-zero
  divisor.
\<close>

definition acquire :: "OrderRateLimiter \<Rightarrow> datetime \<Rightarrow> bool \<times> real \<times> OrderRateLimiter" where
  "acquire s now =
     (let (wait1, s1) =
            (case (in_cooldown s, cooldown_until s) of
               (True, Some until) \<Rightarrow>
                 if now < until then (total_seconds (until - now), s)
                 else (0, s\<lparr>in_cooldown := False, cooldown_until := None\<rparr>)
             | _ \<Rightarrow> (0, s));
          cutoff_1s = now - 1000000;
          pruned = dropWhile (\<lambda>t. t < cutoff_1s) (recent_orders s1);
          orders_last_second = length pruned;
          wait2 = (if orders_last_second \<ge> max_orders_per_second s1
                   then 1 / real (max_orders_per_second s1) else 0)
      in (True, wait1 + wait2,
          s1\<lparr>recent_orders := deque_append (max_orders_per_minute s1) pruned now\<rparr>))"

text \<open>\<^verbatim>\<open>report_error\<close> at time \<open>now\<close>, and \<^verbatim>\<open>report_success\<close>.  The cooldown length is
  turned into microseconds as \<^verbatim>\<open>timedelta(seconds=...)\<close> does.\<close>

definition report_error :: "OrderRateLimiter \<Rightarrow> datetime \<Rightarrow> OrderRateLimiter" where
  "report_error s now =
     (let n = consecutive_errors s + 1;
          cooldown_seconds = min (base_cooldown_seconds s * 2 ^ (n - 1)) (max_cooldown_seconds s)
      in s\<lparr>consecutive_errors := n, in_cooldown := True,
            cooldown_until := Some (now + round (cooldown_seconds * 1000000))\<rparr>)"

definition report_success :: "OrderRateLimiter \<Rightarrow> OrderRateLimiter" where
  "report_success s = (if consecutive_errors s > 0 then s\<lparr>consecutive_errors := 0\<rparr> else s)"

text \<open>A history of calls on the limiter, and the limiter it leaves behind.\<close>

datatype limiter_call = Acquire datetime | ReportError datetime | ReportSuccess

fun limiter_step :: "OrderRateLimiter \<Rightarrow> limiter_call \<Rightarrow> OrderRateLimiter" where
  "limiter_step s (Acquire now) = snd (snd (acquire s now))"
| "limiter_step s (ReportError now) = report_error s now"
| "limiter_step s ReportSuccess = report_success s"

definition limiter_run :: "OrderRateLimiter \<Rightarrow> limiter_call list \<Rightarrow> OrderRateLimiter" where
  "limiter_run s calls = foldl limiter_step s calls"

text \<open>How many recorded orders lie in the one-second window that starts at \<open>lo\<close>.\<close>

definition recorded_in_window :: "OrderRateLimiter \<Rightarrow> datetime \<Rightarrow> nat" where
  "recorded_in_window s lo = length (filter (\<lambda>t. lo \<le> t \<and> t < lo + 1000000) (recent_orders s))"

section \<open>RiskAgent (src/agents/risk\_agent.py)\<close>

text \<open>The trading and z-score sections of the configuration (src/config.py).\<close>

record TradingConfig =
  max_position_size :: real
  max_concurrent_pairs :: int
  daily_loss_limit :: real
  risk_per_trade :: real

record ZScoreConfig =
  entry_threshold :: real
  exit_threshold :: real
  stoploss_threshold :: real

record RiskAgent =
  max_equity :: real
  current_drawdown :: real

text \<open>
  \<^verbatim>\<open>calculate_position_size\<close>.  \<open>stats\<close> is what the performance tracker's session
  statistics give for \<^verbatim>\<open>(win_rate, total_trades)\<close>, or \<open>None\<close> when that lookup raises
  (the inner \<^verbatim>\<open>except\<close> then leaves the base size alone).  \<open>volatility\<close> is the optional
  argument; Python's truth test on it fails for \<open>None\<close> and for zero.  The outer
  \<^verbatim>\<open>except\<close>, which would return \<open>(100, 100)\<close>, guards arithmetic that cannot raise
  on numbers, so it has no branch here.  The pair identifier is only logged.
\<close>

definition dynamic_base_size :: "TradingConfig \<Rightarrow> (real \<times> nat) option \<Rightarrow> real" where
  "dynamic_base_size cfg stats =
     (case stats of
        None \<Rightarrow> max_position_size cfg
      | Some (win_rate, total_trades) \<Rightarrow>
          if total_trades \<ge> 5 then
            (if win_rate \<ge> 0.60 then max_position_size cfg * 2.0
             else if win_rate \<ge> 0.55 then max_position_size cfg * 1.5
             else max_position_size cfg)
          else max_position_size cfg)"

definition vol_multiplier :: "real option \<Rightarrow> real" where
  "vol_multiplier volatility =
     (case volatility of
        None \<Rightarrow> 1.0
      | Some v \<Rightarrow>
          if v \<noteq> 0 \<and> v > 0 then (if v > 0.5 then min 1.0 (0.5 / v) else 1.0) else 1.0)"

definition calculate_position_size ::
  "TradingConfig \<Rightarrow> (real \<times> nat) option \<Rightarrow> string \<Rightarrow> real \<Rightarrow> real \<Rightarrow> real option \<Rightarrow> real \<times> real" where
  "calculate_position_size cfg stats pid account_balance signal_confidence volatility =
     (let base_size = dynamic_base_size cfg stats;
          confidence_multiplier = 0.5 + signal_confidence * 0.5;
          vol_mult = vol_multiplier volatility;
          risk_amount = account_balance * risk_per_trade cfg;
          position_size = min (base_size * confidence_multiplier * vol_mult) (risk_amount * 10);
          position_size = min position_size (account_balance * 0.2);
          min_position_size = 500.0;
          position_size = max position_size min_position_size
      in (position_size, position_size))"

text \<open>\<^verbatim>\<open>_update_drawdown\<close> and \<^verbatim>\<open>check_risk_limits\<close>.  A violation message is its kind
  with the numbers the message prints.\<close>

definition update_drawdown :: "RiskAgent \<Rightarrow> real \<Rightarrow> RiskAgent" where
  "update_drawdown ag current_equity =
     (let ag1 = (if current_equity > max_equity ag then ag\<lparr>max_equity := current_equity\<rparr> else ag)
      in if max_equity ag1 > 0
         then ag1\<lparr>current_drawdown := (max_equity ag1 - current_equity) / max_equity ag1\<rparr>
         else ag1\<lparr>current_drawdown := 0\<rparr>)"

datatype violation =
    MaxConcurrentPositions nat
  | DailyLossLimitExceeded real
  | TotalExposureTooHigh real real
  | HighDrawdown real

definition position_exposure :: "Position \<Rightarrow> real" where
  "position_exposure pos =
     (let price_a = (if current_price_a pos > 0 then current_price_a pos else entry_price_a pos);
          price_b = (if current_price_b pos > 0 then current_price_b pos else entry_price_b pos)
      in size_a pos * price_a + size_b pos * price_b)"

definition total_exposure :: "Position list \<Rightarrow> real" where
  "total_exposure current_positions = foldl (\<lambda>acc pos. acc + position_exposure pos) 0 current_positions"

definition check_risk_limits ::
  "RiskAgent \<Rightarrow> TradingConfig \<Rightarrow> Position list \<Rightarrow> real \<Rightarrow> real \<Rightarrow> (bool \<times> violation list) \<times> RiskAgent" where
  "check_risk_limits ag cfg current_positions dpnl account_balance =
     (let v1 = (if int (length current_positions) \<ge> max_concurrent_pairs cfg
                then [MaxConcurrentPositions (length current_positions)] else []);
          v2 = (if dpnl < - daily_loss_limit cfg then [DailyLossLimitExceeded dpnl] else []);
          exposure = total_exposure current_positions;
          max_exposure = account_balance * 0.8;
          v3 = (if exposure > max_exposure then [TotalExposureTooHigh exposure max_exposure] else []);
          ag' = update_drawdown ag account_balance;
          v4 = (if current_drawdown ag' > 0.20 then [HighDrawdown (current_drawdown ag')] else []);
          violations = v1 @ v2 @ v3 @ v4
      in ((violations = [], violations), ag'))"

text \<open>
  \<^verbatim>\<open>should_close_position\<close>.  \<open>now\<close> is \<^verbatim>\<open>datetime.now()\<close>; \<open>max_holding_hours\<close> is
  the value read from the YAML configuration (24 when absent).  The verdict comes with
  the position, because the trailing-stop branch stores \<^verbatim>\<open>max_profit_pct\<close> on it.  A
  reason is its kind with the numbers the message prints.  The price arguments are not
  read by the source.
\<close>

datatype close_reason =
    EmergencyStopLoss real
  | HoldingTimeTooShort real
  | QuickProfit real real
  | BreakevenExit real
  | TrailingStop real real
  | PnlStopLossPercent real
  | ZscoreStopLoss real
  | MeanReversionExit real
  | MaxHoldingPeriodExceeded real
  | PnlStopLossAmount real
  | NoReason

definition MIN_HOLDING_SECONDS :: real where
  "MIN_HOLDING_SECONDS = 30"

definition track_max_profit :: "Position \<Rightarrow> real \<Rightarrow> Position" where
  "track_max_profit position pnl_pct =
     (case max_profit_pct position of
        None \<Rightarrow> position\<lparr>max_profit_pct := Some pnl_pct\<rparr>
      | Some m \<Rightarrow> position\<lparr>max_profit_pct := Some (max m pnl_pct)\<rparr>)"

definition should_close_position ::
  "ZScoreConfig \<Rightarrow> real \<Rightarrow> datetime \<Rightarrow> Position \<Rightarrow> real \<Rightarrow> real \<Rightarrow> real \<Rightarrow>
   (bool \<times> close_reason) \<times> Position" where
  "should_close_position zcfg max_holding_hours now position price_a price_b z =
     (let holding_time_delta = now - entry_time position;
          holding_seconds = total_seconds holding_time_delta
      in if unrealized_pnl position \<noteq> 0 \<and> unrealized_pnl position < - 100
         then ((True, EmergencyStopLoss (unrealized_pnl position)), position)
         else if holding_seconds < MIN_HOLDING_SECONDS
         then ((False, HoldingTimeTooShort holding_seconds), position)
         else
           let position_value = size_a position * entry_price_a position;
               pnl_pct = (if position_value > 0
                          then unrealized_pnl position / position_value * 100 else 0)
           in if pnl_pct \<ge> 0.2 then ((True, QuickProfit pnl_pct holding_seconds), position)
              else if pnl_pct \<ge> 0 \<and> holding_seconds \<ge> 120
              then ((True, BreakevenExit holding_seconds), position)
              else
                let position1 = (if pnl_pct \<ge> 0.3 then track_max_profit position pnl_pct
                                 else position);
                    trailing = (pnl_pct \<ge> 0.3 \<and>
                                (case max_profit_pct position1 of
                                   None \<Rightarrow> False
                                 | Some m \<Rightarrow> pnl_pct < m - 0.15))
                in if trailing
                   then ((True, TrailingStop pnl_pct (case max_profit_pct position1 of
                                                        None \<Rightarrow> pnl_pct | Some m \<Rightarrow> m)),
                         position1)
                   else if pnl_pct \<le> - 0.3 then ((True, PnlStopLossPercent pnl_pct), position1)
                   else if \<bar>z\<bar> > stoploss_threshold zcfg then ((True, ZscoreStopLoss z), position1)
                   else if \<bar>z\<bar> < exit_threshold zcfg then ((True, MeanReversionExit z), position1)
                   else if real_of_int holding_time_delta > max_holding_hours * 3600000000
                   then ((True, MaxHoldingPeriodExceeded (holding_seconds / 3600)), position1)
                   else if unrealized_pnl position1 \<noteq> 0
                           \<and> unrealized_pnl position1 < - position_value * 0.005
                   then ((True, PnlStopLossAmount (unrealized_pnl position1)), position1)
                   else ((False, NoReason), position1))"

section \<open>Decisions (src/agents/risk\_agent.py, src/agents/orchestrator.py)\<close>

text \<open>The action strings that strategies, the risk agent and the orchestrator exchange.\<close>

datatype action = LONG_SPREAD | SHORT_SPREAD | CLOSE | HOLD | PAUSE | APPROVE

datatype agent = quant | sentiment

datatype decision_reason =
    RiskViolations "violation list"
  | MaxPositionsReached
  | RiskChecksPassed
  | Consensus nat "agent list"
  | ErrorReason

text \<open>
  A decision dictionary.  Its timestamp and its metadata (diagnostics copied from the
  quantitative analysis) steer nothing and are left out; the sizing keys exist only on
  an approved entry.
\<close>

record Decision =
  action :: action
  reason :: decision_reason
  confidence :: real
  position_size_a :: "real option"
  position_size_b :: "real option"
  decision_hedge_ratio :: "real option"

definition make_decision_response :: "action \<Rightarrow> decision_reason \<Rightarrow> real \<Rightarrow> Decision" where
  "make_decision_response a r c =
     \<lparr> action = a, reason = r, confidence = c, position_size_a = None, position_size_b = None,
       decision_hedge_ratio = None \<rparr>"

text \<open>\<^verbatim>\<open>get_recommendation\<close>: the risk check first, then the entry gate.\<close>

definition get_recommendation ::
  "RiskAgent \<Rightarrow> TradingConfig \<Rightarrow> action \<Rightarrow> Position list \<Rightarrow> real \<Rightarrow> real \<Rightarrow> Decision \<times> RiskAgent" where
  "get_recommendation ag cfg signal_action current_positions account_balance dpnl =
     (let ((is_safe, violations), ag') =
            check_risk_limits ag cfg current_positions dpnl account_balance
      in if \<not> is_safe then (make_decision_response PAUSE (RiskViolations violations) 1.0, ag')
         else if signal_action \<in> {LONG_SPREAD, SHORT_SPREAD}
                 \<and> int (length current_positions) \<ge> max_concurrent_pairs cfg
         then (make_decision_response HOLD MaxPositionsReached 1.0, ag')
         else (make_decision_response APPROVE RiskChecksPassed 1.0, ag'))"

text \<open>
  Vote counting, shared by the orchestrator and the strategy manager: a dictionary from
  action to \<open>(count, total_confidence, names)\<close> in insertion order, and the
  lexicographic order on \<open>(count, total_confidence)\<close> that both use as key.
\<close>

type_synonym 'n votes = "(action \<times> nat \<times> real \<times> 'n list) list"

fun add_vote :: "action \<Rightarrow> real \<Rightarrow> 'n \<Rightarrow> 'n votes \<Rightarrow> 'n votes" where
  "add_vote a c n [] = [(a, 1, 0 + c, [n])]"
| "add_vote a c n ((b, k, t, ns) # rest) =
     (if a = b then (b, k + 1, t + c, ns @ [n]) # rest
      else (b, k, t, ns) # add_vote a c n rest)"

definition key_less :: "action \<times> nat \<times> real \<times> 'n list \<Rightarrow> action \<times> nat \<times> real \<times> 'n list \<Rightarrow> bool" where
  "key_less x y =
     (case (x, y) of
        ((_, k1, t1, _), (_, k2, t2, _)) \<Rightarrow> k1 < k2 \<or> (k1 = k2 \<and> t1 < t2))"

text \<open>Python's \<^verbatim>\<open>max(..., key=...)\<close>: the first element whose key no other exceeds.\<close>

fun max_by_key :: "(action \<times> nat \<times> real \<times> 'n list) \<Rightarrow> 'n votes \<Rightarrow> action \<times> nat \<times> real \<times> 'n list" where
  "max_by_key best [] = best"
| "max_by_key best (x # xs) = max_by_key (if key_less best x then x else best) xs"

text \<open>\<^verbatim>\<open>_sentiment_to_action\<close> and \<^verbatim>\<open>_combine_agent_decisions\<close>.\<close>

definition sentiment_to_action :: "real \<Rightarrow> action \<Rightarrow> Position option \<Rightarrow> action \<times> real" where
  "sentiment_to_action sentiment_score quant_action current_position =
     (if sentiment_score < - 0.6 \<and> quant_action = LONG_SPREAD then (HOLD, 0.7)
      else if \<not> sentiment_score < - 0.6 \<and> sentiment_score > 0.6 \<and> quant_action = SHORT_SPREAD
      then (HOLD, 0.7)
      else if \<bar>sentiment_score\<bar> > 0.8 \<and> current_position \<noteq> None then (CLOSE, 0.6)
      else if sentiment_score = 0 then (quant_action, 0.9)
      else (quant_action, 0.5 + \<bar>sentiment_score\<bar> * 0.2))"

definition combine_agent_decisions ::
  "action \<times> real \<Rightarrow> real \<Rightarrow> Position option \<Rightarrow> Decision" where
  "combine_agent_decisions quant_recommendation sentiment_score current_position =
     (let (quant_action, quant_confidence) = quant_recommendation;
          (sentiment_action, sentiment_confidence) =
             sentiment_to_action sentiment_score quant_action current_position;
          action_votes = add_vote sentiment_action sentiment_confidence sentiment
                           (add_vote quant_action quant_confidence quant [])
      in case action_votes of
           [] \<Rightarrow> make_decision_response HOLD ErrorReason 0.0
         | v # vs \<Rightarrow>
             (case max_by_key v vs of
                (a, cnt, total_confidence, agents) \<Rightarrow>
                  make_decision_response a (Consensus cnt agents) (total_confidence / 2)))"

section \<open>StrategyManager, consensus mode (src/strategy/strategy\_manager.py)\<close>

datatype strategy = engle_granger | orderbook_imbalance | correlation_rsi | mean_reversion

datatype consensus = STRONG | MODERATE | WEAK | CONFLICTING | NONE

record AggregatedSignal =
  action :: action
  confidence :: real
  consensus :: consensus
  votes :: "(action \<times> nat) list"
  agreeing_strategies :: "strategy list"

text \<open>The weights the manager starts with; \<^verbatim>\<open>_update_weights\<close> may replace them, so
  the aggregation takes the weights as an argument.\<close>

fun initial_weights :: "strategy \<Rightarrow> real" where
  "initial_weights engle_granger = 0.4"
| "initial_weights orderbook_imbalance = 0.3"
| "initial_weights correlation_rsi = 0.2"
| "initial_weights mean_reversion = 0.1"

definition number_of_strategies :: nat where
  "number_of_strategies = 4"

text \<open>\<^verbatim>\<open>sorted(..., key=..., reverse=True)\<close>: descending by key, and stable, so entries
  with equal keys keep their dictionary order.\<close>

fun insort_desc :: "(action \<times> nat \<times> real \<times> 'n list) \<Rightarrow> 'n votes \<Rightarrow> 'n votes" where
  "insort_desc x [] = [x]"
| "insort_desc x (y # ys) = (if key_less x y then y # insort_desc x ys else x # y # ys)"

definition sorted_desc :: "'n votes \<Rightarrow> 'n votes" where
  "sorted_desc xs = foldr insort_desc xs []"

text \<open>\<^verbatim>\<open>_aggregate_signals\<close>; \<open>signals\<close> is the signal dictionary in insertion order,
  each entry a strategy name with its action and confidence.\<close>

definition tally :: "(strategy \<Rightarrow> real) \<Rightarrow> (strategy \<times> action \<times> real) list \<Rightarrow> strategy votes" where
  "tally weights signals =
     foldl (\<lambda>acc (name, a, conf). add_vote a (conf * weights name) name acc) [] signals"

definition aggregate_signals ::
  "(strategy \<Rightarrow> real) \<Rightarrow> (strategy \<times> action \<times> real) list \<Rightarrow> AggregatedSignal" where
  "aggregate_signals weights signals =
     (let actions = tally weights signals;
          total_weight = foldl (\<lambda>acc (name, a, conf). acc + weights name) 0 signals
      in case sorted_desc actions of
           [] \<Rightarrow> \<lparr> action = HOLD, confidence = 0.0, consensus = NONE, votes = [],
                   agreeing_strategies = [] \<rparr>
         | (dominant_action, cnt, total_confidence, names) # _ \<Rightarrow>
             let (cons, dominant) =
                   (if cnt = number_of_strategies then (STRONG, dominant_action)
                    else if real cnt \<ge> real number_of_strategies / 2 then (MODERATE, dominant_action)
                    else if total_confidence > 0.7 then (MODERATE, dominant_action)
                    else if length actions > 2 then (CONFLICTING, HOLD)
                    else (WEAK, dominant_action));
                 avg_confidence = (if total_weight > 0 then total_confidence / total_weight else 0.0)
             in \<lparr> action = dominant, confidence = avg_confidence, consensus = cons,
                  votes = map (\<lambda>(a, k, t, ns). (a, k)) actions,
                  agreeing_strategies = names \<rparr>)"

text \<open>The end of \<^verbatim>\<open>generate_aggregated_signal\<close>: the breakout boost, for the flag that the
  volume and range test on the candles produced.\<close>

definition generate_aggregated_signal ::
  "(strategy \<Rightarrow> real) \<Rightarrow> bool \<Rightarrow> (strategy \<times> action \<times> real) list \<Rightarrow> AggregatedSignal" where
  "generate_aggregated_signal weights breakout_detected signals =
     (let aggregated = aggregate_signals weights signals
      in if breakout_detected \<and> AggregatedSignal.action aggregated \<noteq> HOLD
         then aggregated\<lparr>confidence := min 1.0 (AggregatedSignal.confidence aggregated * 1.2),
                         consensus := STRONG\<rparr>
         else aggregated)"

text \<open>The four signals of one evaluation, in the order the manager registers its
  strategies.\<close>

definition four_signals ::
  "action \<times> real \<Rightarrow> action \<times> real \<Rightarrow> action \<times> real \<Rightarrow> action \<times> real \<Rightarrow> (strategy \<times> action \<times> real) list" where
  "four_signals eg obi crsi mr =
     [(engle_granger, eg), (orderbook_imbalance, obi), (correlation_rsi, crsi), (mean_reversion, mr)]"

text \<open>The actions other than \<open>HOLD\<close> among the four signalled actions, in strategy
  order.\<close>

definition signalled :: "action list \<Rightarrow> action list" where
  "signalled actions = filter (\<lambda>a. a \<noteq> HOLD) actions"

section \<open>Orchestrator, the candle-aware \<^verbatim>\<open>make_decision\<close> (src/agents/orchestrator.py)\<close>

text \<open>
  The second definition of \<^verbatim>\<open>make_decision\<close>, from the point where the strategy manager
  has returned \<open>strategy_signal\<close>.  \<open>quant_hedge_ratio\<close> is the hedge ratio in the
  quantitative analysis, \<open>None\<close> when that key is missing: reading it then raises, and
  the surrounding \<^verbatim>\<open>except\<close> answers with a zero-confidence hold.  Sentiment analysis is
  switched off in the source, so the score is the constant zero.  \<open>find_position\<close> is
  the loop that looks for the open position of the pair.
\<close>

definition find_position :: "string \<Rightarrow> Position list \<Rightarrow> Position option" where
  "find_position pid current_positions = find (\<lambda>pos. pair_id pos = pid) current_positions"

definition make_decision ::
  "RiskAgent \<Rightarrow> TradingConfig \<Rightarrow> (real \<times> nat) option \<Rightarrow> string \<Rightarrow> string \<Rightarrow> Position list \<Rightarrow>
   real \<Rightarrow> real \<Rightarrow> AggregatedSignal \<Rightarrow> real option \<Rightarrow> Decision \<times> RiskAgent" where
  "make_decision ag cfg stats sym_a sym_b current_positions account_balance dpnl
     strategy_signal quant_hedge_ratio =
     (let pid = sym_a @ ''_'' @ sym_b;
          current_position = find_position pid current_positions;
          decision = combine_agent_decisions
                       (AggregatedSignal.action strategy_signal,
                        AggregatedSignal.confidence strategy_signal) 0.0 current_position;
          (risk_recommendation, ag') =
             get_recommendation ag cfg (Decision.action decision) current_positions
               account_balance dpnl
      in if Decision.action risk_recommendation \<noteq> APPROVE
         then (make_decision_response (Decision.action risk_recommendation)
                 (reason risk_recommendation) (Decision.confidence risk_recommendation), ag')
         else if Decision.action decision \<in> {LONG_SPREAD, SHORT_SPREAD}
         then (case quant_hedge_ratio of
                 None \<Rightarrow> (make_decision_response HOLD ErrorReason 0.0, ag')
               | Some h \<Rightarrow>
                   let (sz_a, sz_b) = calculate_position_size cfg stats pid account_balance
                                        (Decision.confidence decision) None
                   in (decision\<lparr>position_size_a := Some sz_a, position_size_b := Some sz_b,
                                decision_hedge_ratio := Some h\<rparr>, ag'))
         else (decision, ag'))"

section \<open>Engle-Granger strategy (src/strategy/engle\_granger\_strategy.py)\<close>

record EngleGrangerStrategy =
  lookback_periods :: nat
  zscore_entry :: real
  zscore_exit :: real
  zscore_stoploss :: real
  min_data_points :: nat

definition init_EngleGrangerStrategy :: EngleGrangerStrategy where
  "init_EngleGrangerStrategy =
     \<lparr> lookback_periods = 60, zscore_entry = 2.0, zscore_exit = 0.3, zscore_stoploss = 3.5,
       min_data_points = 30 \<rparr>"

text \<open>
  What the numerical steps of \<^verbatim>\<open>generate_signal\<close> hand to its decision logic: the
  correlation and distance of the windows, the hedge ratio and the ADF p-value of
  \<^verbatim>\<open>engle_granger_test\<close> on the windowed residuals, the z-score and the current spread.
  They come from pandas, scipy and statsmodels and are inputs here.
\<close>

record eg_statistics =
  st_correlation :: real
  st_distance :: real
  st_hedge_ratio :: real
  st_adf_pvalue :: real
  st_zscore :: real
  st_spread :: real

datatype eg_reason =
    EgInsufficientData
  | EgStopLoss
  | EgMeanReversion
  | EgHoldingPosition
  | EgNotCointegrated
  | EgEntry bool
  | EgNoSignal
  | EgError

record EngleGrangerSignal =
  action :: action
  confidence :: real
  zscore :: real
  spread :: real
  hedge_ratio :: real
  correlation :: real
  distance :: real
  adf_pvalue :: real
  entry_reason :: eg_reason

definition eg_blank :: "eg_reason \<Rightarrow> EngleGrangerSignal" where
  "eg_blank r =
     \<lparr> action = HOLD, confidence = 0.0, zscore = 0.0, spread = 0.0, hedge_ratio = 1.0,
       correlation = 0.0, distance = 0.0, adf_pvalue = 1.0, entry_reason = r \<rparr>"

definition eg_signal :: "eg_statistics \<Rightarrow> action \<Rightarrow> real \<Rightarrow> eg_reason \<Rightarrow> EngleGrangerSignal" where
  "eg_signal st a c r =
     \<lparr> action = a, confidence = c, zscore = st_zscore st, spread = st_spread st,
       hedge_ratio = st_hedge_ratio st, correlation = st_correlation st,
       distance = st_distance st, adf_pvalue = st_adf_pvalue st, entry_reason = r \<rparr>"

text \<open>Python's truth test on the optional position string: \<open>None\<close> and the empty string
  count as no position.\<close>

definition holds_position :: "string option \<Rightarrow> bool" where
  "holds_position current_position = (current_position \<noteq> None \<and> current_position \<noteq> Some [])"

text \<open>
  \<^verbatim>\<open>generate_signal\<close>.  \<open>len_a\<close> and \<open>len_b\<close> are the lengths of the two series after
  duplicates are removed; \<open>stats\<close> is \<open>None\<close> when a numerical step raises, which the
  outer \<^verbatim>\<open>except\<close> turns into the blank hold.
\<close>

definition generate_signal ::
  "EngleGrangerStrategy \<Rightarrow> nat \<Rightarrow> nat \<Rightarrow> eg_statistics option \<Rightarrow> string option \<Rightarrow> EngleGrangerSignal" where
  "generate_signal strat len_a len_b stats current_position =
     (if len_a < min_data_points strat \<or> len_b < min_data_points strat
      then eg_blank EgInsufficientData
      else case stats of
        None \<Rightarrow> eg_blank EgError
      | Some st \<Rightarrow>
          let z = st_zscore st; p = st_adf_pvalue st in
          if holds_position current_position then
            (if \<bar>z\<bar> > zscore_stoploss strat then eg_signal st CLOSE 0.95 EgStopLoss
             else if \<bar>z\<bar> < zscore_exit strat then eg_signal st CLOSE 0.90 EgMeanReversion
             else eg_signal st HOLD 0.5 EgHoldingPosition)
          else
            let is_strong_cointegration = (p < 0.10);
                is_weak_cointegration = (p < 0.20)
            in if \<not> is_weak_cointegration then eg_signal st HOLD 0.0 EgNotCointegrated
               else
                 let cointegration_quality =
                       (if is_strong_cointegration then 1.0 else max 0.5 (1.0 - (p - 0.10) * 5))
                 in if z > zscore_entry strat
                    then eg_signal st SHORT_SPREAD (min 0.95 (0.6 + \<bar>z\<bar> / 10) * cointegration_quality)
                           (EgEntry is_strong_cointegration)
                    else if z < - zscore_entry strat
                    then eg_signal st LONG_SPREAD (min 0.95 (0.6 + \<bar>z\<bar> / 10) * cointegration_quality)
                           (EgEntry is_strong_cointegration)
                    else eg_signal st HOLD 0.5 EgNoSignal)"

section \<open>Price history (src/main.py, \<^verbatim>\<open>_update_price_data\<close>)\<close>

text \<open>
  A price series is the list of its \<open>(timestamp, price)\<close> rows, oldest first.  The
  market data manager's \<^verbatim>\<open>get_price\<close> answers \<open>0.0\<close> for a symbol it has no price for.
  For an empty series the source compares against \<^verbatim>\<open>datetime.min\<close>, which is \<open>0\<close> here.
\<close>

type_synonym series = "(datetime \<times> real) list"

definition get_price :: "(string \<rightharpoonup> real) \<Rightarrow> string \<Rightarrow> real" where
  "get_price latest_prices symbol = (case latest_prices symbol of None \<Rightarrow> 0.0 | Some p \<Rightarrow> p)"

definition MAX_POINTS :: nat where
  "MAX_POINTS = 10000"

definition last_time :: "series \<Rightarrow> datetime" where
  "last_time xs = (if xs = [] then 0 else fst (last xs))"

definition update_symbol :: "datetime \<Rightarrow> real \<Rightarrow> series option \<Rightarrow> series option" where
  "update_symbol current_time price stored =
     (if price > 0 then
        let xs = (case stored of None \<Rightarrow> [] | Some ys \<Rightarrow> ys)
        in if total_seconds (current_time - last_time xs) \<ge> 1 then
             let ys = xs @ [(current_time, price)]
             in Some (if length ys > MAX_POINTS then drop (length ys - MAX_POINTS) ys else ys)
           else Some xs
      else stored)"

definition update_price_data ::
  "string list \<Rightarrow> (string \<rightharpoonup> real) \<Rightarrow> datetime \<Rightarrow> (string \<rightharpoonup> series) \<Rightarrow> (string \<rightharpoonup> series)" where
  "update_price_data symbols latest_prices current_time price_data =
     foldl (\<lambda>pd symbol. pd(symbol := update_symbol current_time (get_price latest_prices symbol)
                                        (pd symbol)))
       price_data symbols"

text \<open>A run of the engine's iterations: each one calls the update with its own clock
  value and the prices the market data manager holds at that moment.\<close>

fun run_updates ::
  "string list \<Rightarrow> (string \<rightharpoonup> series) \<Rightarrow> (datetime \<times> (string \<rightharpoonup> real)) list \<Rightarrow> (string \<rightharpoonup> series)" where
  "run_updates symbols price_data [] = price_data"
| "run_updates symbols price_data ((current_time, latest_prices) # rest) =
     run_updates symbols (update_price_data symbols latest_prices current_time price_data) rest"

text \<open>The stored series of a symbol, empty when the symbol has none yet.\<close>

definition stored_series :: "(string \<rightharpoonup> series) \<Rightarrow> string \<Rightarrow> series" where
  "stored_series price_data symbol = (case price_data symbol of None \<Rightarrow> [] | Some xs \<Rightarrow> xs)"

section \<open>Concrete inputs\<close>

text \<open>A manager holding one open position: long one unit of the first leg and short
  one unit of the second, both entered at 100.\<close>

definition example_position :: Position where
  "example_position =
     new_position ''BTCUSDT_ETHUSDT'' ''BTCUSDT'' ''ETHUSDT'' LONG SHORT 1 1 100 100 1 2 0"

definition example_manager :: PositionManager where
  "example_manager =
     init_PositionManager\<lparr>open_positions := [''BTCUSDT_ETHUSDT'' \<mapsto> example_position]\<rparr>"

text \<open>A limiter history: six orders ten milliseconds apart.\<close>

definition burst :: "limiter_call list" where
  "burst = [Acquire 0, Acquire 10000, Acquire 20000, Acquire 30000, Acquire 40000, Acquire 50000]"

text \<open>A configuration that allows one pair at a time, a fresh risk agent, the z-score
  thresholds of the settings, and a strategy verdict.\<close>

definition example_config :: TradingConfig where
  "example_config =
     \<lparr> max_position_size = 1000, max_concurrent_pairs = 1, daily_loss_limit = 500,
       risk_per_trade = 0.01 \<rparr>"

definition example_agent :: RiskAgent where
  "example_agent = \<lparr> max_equity = 0, current_drawdown = 0 \<rparr>"

definition example_zscore_config :: ZScoreConfig where
  "example_zscore_config =
     \<lparr> entry_threshold = 2.5, exit_threshold = 0.3, stoploss_threshold = 4.0 \<rparr>"

definition example_signal :: AggregatedSignal where
  "example_signal =
     \<lparr> AggregatedSignal.action = LONG_SPREAD, AggregatedSignal.confidence = 0.8,
       consensus = MODERATE,
       votes = [(LONG_SPREAD, 2), (HOLD, 2)],
       agreeing_strategies = [engle_granger, orderbook_imbalance] \<rparr>"

text \<open>Statistics of a pair that is not cointegrated and sits at its mean.\<close>

definition example_statistics :: eg_statistics where
  "example_statistics =
     \<lparr> st_correlation = 0.9, st_distance = 1, st_hedge_ratio = 1, st_adf_pvalue = 0.5,
       st_zscore = 0, st_spread = 0 \<rparr>"

text \<open>A one-symbol price store with one stored sample, and a later price.\<close>

definition example_price_data :: "string \<rightharpoonup> series" where
  "example_price_data = [''BTCUSDT'' \<mapsto> [(1000000, 100)]]"

definition example_latest_prices :: "string \<rightharpoonup> real" where
  "example_latest_prices = [''BTCUSDT'' \<mapsto> 101]"

section \<open>Helper lemmas\<close>

lemma close_trade_commission:
  "commission (close_trade p pid ea eb ez r n1 n2) = exit_notional p ea eb * commission_rate * 2"
  by (simp add: close_trade_def exit_notional_def Let_def)

lemma close_trade_pnl:
  "pnl (close_trade p pid ea eb ez r n1 n2) =
     calculate_pnl (Position.side_a p) (Position.entry_price_a p) ea (Position.size_a p)
     + calculate_pnl (Position.side_b p) (Position.entry_price_b p) eb (Position.size_b p)
     - commission (close_trade p pid ea eb ez r n1 n2)"
  by (simp add: close_trade_def Let_def)

lemma close_position_open:
  assumes "open_positions s pid = Some p"
  shows "fst (close_position s pid ea eb ez r n1 n2) = Some (close_trade p pid ea eb ez r n1 n2)"
  using assms by (simp add: close_position_def Let_def)

lemma acquire_flag: "fst (acquire s now) = True"
  by (simp add: acquire_def Let_def split: prod.splits)

lemma vol_multiplier_pos: "0 < vol_multiplier v"
  by (simp add: vol_multiplier_def split: option.splits)

lemma dynamic_base_size_nonneg: "0 \<le> max_position_size cfg \<Longrightarrow> 0 \<le> dynamic_base_size cfg stats"
  by (simp add: dynamic_base_size_def split: option.splits)

lemma sized_mono:
  fixes b v r y c1 c2 :: real
  assumes v: "0 < v" and dom: "0 \<le> c1 \<or> 0 \<le> b" and c: "c1 \<le> c2"
  shows "max (min (min (b * (0.5 + c1 * 0.5) * v) r) y) 500
         \<le> max (min (min (b * (0.5 + c2 * 0.5) * v) r) y) 500"
proof (cases "0 \<le> b")
  case True
  have "0.5 + c1 * 0.5 \<le> 0.5 + c2 * 0.5" using c by simp
  then have "b * (0.5 + c1 * 0.5) \<le> b * (0.5 + c2 * 0.5)"
    using True by (rule mult_left_mono)
  then have "b * (0.5 + c1 * 0.5) * v \<le> b * (0.5 + c2 * 0.5) * v"
    using v by (simp add: mult_right_mono)
  then show ?thesis by (simp add: min_def max_def)
next
  case False
  then have b: "b < 0" and c1: "0 \<le> c1" using dom by auto
  have nonpos: "b * (0.5 + x * 0.5) * v \<le> 0" if "0 \<le> x" for x
  proof -
    have "0 \<le> 0.5 + x * 0.5" using that by simp
    then have "b * (0.5 + x * 0.5) \<le> 0" using b by (simp add: mult_nonpos_nonneg)
    then show ?thesis using v by (simp add: mult_nonpos_nonneg)
  qed
  have "b * (0.5 + c1 * 0.5) * v \<le> 0" "b * (0.5 + c2 * 0.5) * v \<le> 0"
    using nonpos c c1 by auto
  then show ?thesis by (simp add: min_def max_def)
qed

lemma get_recommendation_unsafe:
  assumes "\<not> fst (fst (check_risk_limits ag cfg ps dpnl bal))"
  shows "fst (get_recommendation ag cfg a ps bal dpnl)
         = make_decision_response PAUSE
             (RiskViolations (snd (fst (check_risk_limits ag cfg ps dpnl bal)))) 1"
proof -
  obtain safe vs ag' where c: "check_risk_limits ag cfg ps dpnl bal = ((safe, vs), ag')"
    by (metis prod.exhaust)
  with assms have "\<not> safe" by simp
  then show ?thesis using c by (simp add: get_recommendation_def)
qed

lemmas agg_defs = generate_aggregated_signal_def aggregate_signals_def tally_def four_signals_def
  sorted_desc_def key_less_def number_of_strategies_def Let_def

lemma single_cases:
  assumes "length (signalled [a1, a2, a3, a4]) = 1"
  shows "(a1 \<noteq> HOLD \<and> a2 = HOLD \<and> a3 = HOLD \<and> a4 = HOLD)
       \<or> (a1 = HOLD \<and> a2 \<noteq> HOLD \<and> a3 = HOLD \<and> a4 = HOLD)
       \<or> (a1 = HOLD \<and> a2 = HOLD \<and> a3 \<noteq> HOLD \<and> a4 = HOLD)
       \<or> (a1 = HOLD \<and> a2 = HOLD \<and> a3 = HOLD \<and> a4 \<noteq> HOLD)"
  using assms by (simp add: signalled_def split: if_splits)

lemma agg_single:
  assumes "length (signalled [a1, a2, a3, a4]) = 1"
  shows "AggregatedSignal.action
           (generate_aggregated_signal w b (four_signals (a1, c1) (a2, c2) (a3, c3) (a4, c4))) = HOLD
    \<and> consensus
           (generate_aggregated_signal w b (four_signals (a1, c1) (a2, c2) (a3, c3) (a4, c4)))
        = MODERATE"
  using single_cases [OF assms] by (elim disjE conjE) (simp_all add: agg_defs)

lemma opposed_cases:
  assumes "signalled [a1, a2, a3, a4] = [x, y]" "x \<noteq> HOLD" "y \<noteq> HOLD"
  shows "(a1 = x \<and> a2 = y \<and> a3 = HOLD \<and> a4 = HOLD)
       \<or> (a1 = x \<and> a2 = HOLD \<and> a3 = y \<and> a4 = HOLD)
       \<or> (a1 = x \<and> a2 = HOLD \<and> a3 = HOLD \<and> a4 = y)
       \<or> (a1 = HOLD \<and> a2 = x \<and> a3 = y \<and> a4 = HOLD)
       \<or> (a1 = HOLD \<and> a2 = x \<and> a3 = HOLD \<and> a4 = y)
       \<or> (a1 = HOLD \<and> a2 = HOLD \<and> a3 = x \<and> a4 = y)"
  using assms by (simp add: signalled_def split: if_splits)

lemma agg_opposed:
  assumes "signalled [a1, a2, a3, a4] = [x, y]"
    and "x \<noteq> HOLD" "y \<noteq> HOLD" "x \<noteq> y"
  shows "AggregatedSignal.action
           (generate_aggregated_signal w b (four_signals (a1, c1) (a2, c2) (a3, c3) (a4, c4))) = HOLD
    \<and> consensus
           (generate_aggregated_signal w b (four_signals (a1, c1) (a2, c2) (a3, c3) (a4, c4)))
        = MODERATE"
  using opposed_cases [OF assms(1-3)] assms(2-4)
  by (elim disjE conjE) (simp_all add: agg_defs)

lemma update_symbol_eq:
  "update_symbol t p stored =
     (let xs = (case stored of None \<Rightarrow> [] | Some ys \<Rightarrow> ys) in
      if p > 0 then
        (if 1000000 \<le> t - last_time xs
         then Some (drop (Suc (length xs) - MAX_POINTS) (xs @ [(t, p)]))
         else Some xs)
      else stored)"
  by (simp add: update_symbol_def Let_def total_seconds_def)

text \<open>A symbol that occurs twice in the list is updated once: the second pass sees the
  sample of the first and is throttled.\<close>

lemma update_symbol_idem:
  "update_symbol t p (update_symbol t p stored) = update_symbol t p stored"
proof (cases "p > 0")
  case False
  then show ?thesis by (simp add: update_symbol_eq)
next
  case True
  define xs where "xs = (case stored of None \<Rightarrow> [] | Some ys \<Rightarrow> ys)"
  show ?thesis
  proof (cases "1000000 \<le> t - last_time xs")
    case False
    then show ?thesis using True by (simp add: update_symbol_eq xs_def Let_def)
  next
    case app: True
    define ys where "ys = drop (Suc (length xs) - MAX_POINTS) (xs @ [(t, p)])"
    have "Suc (length xs) - MAX_POINTS \<le> length xs" by (simp add: MAX_POINTS_def)
    then have "ys \<noteq> []" "last ys = (t, p)" by (simp_all add: ys_def)
    then have "last_time ys = t" by (simp add: last_time_def)
    moreover have "update_symbol t p stored = Some ys"
      using True app by (simp add: update_symbol_eq xs_def ys_def Let_def)
    ultimately show ?thesis using True by (simp add: update_symbol_eq [of t p "Some ys"])
  qed
qed

lemma update_price_data_lookup:
  "update_price_data symbols lp t pd sy =
     (if sy \<in> set symbols then update_symbol t (get_price lp sy) (pd sy) else pd sy)"
  unfolding update_price_data_def
proof (induction symbols arbitrary: pd)
  case Nil
  then show ?case by simp
next
  case (Cons s symbols)
  then show ?case by (simp add: update_symbol_idem)
qed

lemma stored_series_step:
  "stored_series (update_price_data symbols lp t pd) sy = stored_series pd sy
       \<or> (sy \<in> set symbols \<and> 0 < get_price lp sy
           \<and> 1000000 \<le> t - last_time (stored_series pd sy)
           \<and> stored_series (update_price_data symbols lp t pd) sy
              = drop (Suc (length (stored_series pd sy)) - MAX_POINTS)
                  (stored_series pd sy @ [(t, get_price lp sy)]))"
  by (auto simp add: update_price_data_lookup update_symbol_eq stored_series_def Let_def
        split: option.splits)

lemma step_length:
  assumes "length (stored_series pd sy) \<le> MAX_POINTS"
  shows "length (stored_series (update_price_data symbols lp t pd) sy) \<le> MAX_POINTS"
  using stored_series_step [of symbols lp t pd sy] assms
  by (auto simp add: MAX_POINTS_def)

lemma run_length:
  "\<forall>s. length (stored_series pd s) \<le> MAX_POINTS \<Longrightarrow>
   length (stored_series (run_updates symbols pd us) sy) \<le> MAX_POINTS"
proof (induction us arbitrary: pd)
  case Nil
  then show ?case by simp
next
  case (Cons u us)
  obtain t lp where u: "u = (t, lp)" by (cases u)
  have "\<forall>s. length (stored_series (update_price_data symbols lp t pd) s) \<le> MAX_POINTS"
    using Cons.prems step_length by blast
  then show ?case using Cons.IH u by simp
qed

section \<open>PositionManager: closing, adding and updating positions\<close>

text \<open>
  C1.  The commission on the trade that \<^verbatim>\<open>close_position\<close> records should be the entry
  notional times the taker fee plus the exit notional times the taker fee.  The code
  charges the exit notional twice instead (\<open>close_position_open\<close>,
  \<open>close_trade_commission\<close>).  On the example
  position (both legs entered at 100, one unit each) closed at 200 and 100, the
  recorded commission is 0.36, while entry notional times fee plus exit notional times
  fee is 0.30.  The net P&L is still the two leg results minus the recorded commission
  (\<open>close_trade_pnl\<close>): here 100 + 0 - 0.36.
\<close>

theorem close_position_commission_at_failing_input:
  "map_option commission
     (fst (close_position example_manager ''BTCUSDT_ETHUSDT'' 200 100 0 ''exit'' 60000000 60000000))
     = Some (36 / 100)
   \<and> entry_notional example_position * commission_rate
       + exit_notional example_position 200 100 * commission_rate = 30 / 100
   \<and> map_option pnl
     (fst (close_position example_manager ''BTCUSDT_ETHUSDT'' 200 100 0 ''exit'' 60000000 60000000))
     = Some (100 + 0 - 36 / 100)"
  by (simp add: close_position_def close_trade_def example_manager_def example_position_def
      new_position_def init_PositionManager_def entry_notional_def exit_notional_def
      commission_rate_def Let_def)

text \<open>
  C7, as the code has it.  \<^verbatim>\<open>add_position\<close> has no guard: when a position is already
  open for the pair, the call stores the newly built position in its place (sizes,
  sides and entry prices of the call, current prices equal to the entry prices,
  unrealized P&L zero, entry time now) and returns it.  Positions of other pairs, the
  closed trades and both P&L totals are left as they were.
\<close>

theorem add_position_replaces_existing:
  assumes "open_positions s pid = Some p"
  shows "(let (position, s') =
            add_position s pid sym_a sym_b sd_a sd_b sz_a sz_b price_a price_b hr z now
          in open_positions s' pid = Some position
             \<and> Position.side_a position = sd_a \<and> Position.side_b position = sd_b
             \<and> Position.size_a position = sz_a \<and> Position.size_b position = sz_b
             \<and> Position.entry_price_a position = price_a
             \<and> Position.entry_price_b position = price_b
             \<and> current_price_a position = price_a \<and> current_price_b position = price_b
             \<and> unrealized_pnl position = 0 \<and> Position.entry_time position = now
             \<and> (\<forall>q. q \<noteq> pid \<longrightarrow> open_positions s' q = open_positions s q)
             \<and> closed_trades s' = closed_trades s
             \<and> daily_pnl s' = daily_pnl s \<and> total_pnl s' = total_pnl s)"
  by (simp add: add_position_def new_position_def Let_def)

text \<open>The amended C7 on the example manager: the stored position is the new one.\<close>

theorem add_position_replaces_existing_witness:
  "open_positions example_manager ''BTCUSDT_ETHUSDT'' = Some example_position
   \<and> open_positions
       (snd (add_position example_manager ''BTCUSDT_ETHUSDT'' ''BTCUSDT'' ''ETHUSDT''
               SHORT LONG 5 5 200 200 1 0 1000000)) ''BTCUSDT_ETHUSDT''
     = Some (new_position ''BTCUSDT_ETHUSDT'' ''BTCUSDT'' ''ETHUSDT''
               SHORT LONG 5 5 200 200 1 0 1000000)"
proof -
  have h: "open_positions example_manager ''BTCUSDT_ETHUSDT'' = Some example_position"
    by (simp add: example_manager_def)
  from add_position_replaces_existing [OF h, of "''BTCUSDT''" "''ETHUSDT''"
      SHORT LONG 5 5 200 200 1 0 1000000]
  have "open_positions
       (snd (add_position example_manager ''BTCUSDT_ETHUSDT'' ''BTCUSDT'' ''ETHUSDT''
               SHORT LONG 5 5 200 200 1 0 1000000)) ''BTCUSDT_ETHUSDT''
     = Some (fst (add_position example_manager ''BTCUSDT_ETHUSDT'' ''BTCUSDT'' ''ETHUSDT''
               SHORT LONG 5 5 200 200 1 0 1000000))"
    by (simp add: Let_def split: prod.splits)
  then show ?thesis using h by (simp add: add_position_def Let_def)
qed

text \<open>C7 as stated fails: after adding to the pair that is already open, the stored
  position is no longer the existing one.\<close>

theorem add_position_existing_counterexample:
  "open_positions example_manager ''BTCUSDT_ETHUSDT'' = Some example_position
   \<and> open_positions
       (snd (add_position example_manager ''BTCUSDT_ETHUSDT'' ''BTCUSDT'' ''ETHUSDT''
               SHORT LONG 5 5 200 200 1 0 1000000)) ''BTCUSDT_ETHUSDT''
     \<noteq> Some example_position"
  by (simp add: example_manager_def example_position_def add_position_def new_position_def
      init_PositionManager_def Let_def)

text \<open>
  C10.  \<^verbatim>\<open>update_position\<close> on invalid input (the pair is not open, or a price is not
  positive) returns the manager unchanged.  On valid input it changes only the stored
  position of that pair, and there only the two current prices, the current z-score and
  the unrealized P&L: identity, symbols, sides, sizes, entry prices, hedge ratio, entry
  z-score and entry time stay, as do the other positions, the closed trades and both
  P&L totals.
\<close>

theorem update_position_atomic:
  "(open_positions s pid = None \<or> price_a \<le> 0 \<or> price_b \<le> 0
      \<longrightarrow> update_position s pid price_a price_b z = s)
   \<and> (\<forall>p. open_positions s pid = Some p \<and> 0 < price_a \<and> 0 < price_b \<longrightarrow>
         (let s' = update_position s pid price_a price_b z in
            (\<exists>p'. open_positions s' pid = Some p'
               \<and> p' = p\<lparr>current_price_a := price_a, current_price_b := price_b,
                        current_zscore := z,
                        unrealized_pnl :=
                          calculate_pnl (Position.side_a p) (Position.entry_price_a p) price_a
                            (Position.size_a p)
                          + calculate_pnl (Position.side_b p) (Position.entry_price_b p) price_b
                              (Position.size_b p)\<rparr>
               \<and> Position.pair_id p' = Position.pair_id p
               \<and> Position.symbol_a p' = Position.symbol_a p
               \<and> Position.symbol_b p' = Position.symbol_b p
               \<and> Position.side_a p' = Position.side_a p
               \<and> Position.side_b p' = Position.side_b p
               \<and> Position.size_a p' = Position.size_a p
               \<and> Position.size_b p' = Position.size_b p
               \<and> Position.entry_price_a p' = Position.entry_price_a p
               \<and> Position.entry_price_b p' = Position.entry_price_b p
               \<and> Position.hedge_ratio p' = Position.hedge_ratio p
               \<and> Position.entry_zscore p' = Position.entry_zscore p
               \<and> Position.entry_time p' = Position.entry_time p)
            \<and> (\<forall>q. q \<noteq> pid \<longrightarrow> open_positions s' q = open_positions s q)
            \<and> closed_trades s' = closed_trades s
            \<and> daily_pnl s' = daily_pnl s
            \<and> total_pnl s' = total_pnl s))"
  by (auto simp add: update_position_def Let_def split: option.splits)

text \<open>C10 on the example manager: a zero price changes nothing, an unknown pair
  changes nothing, and valid prices 110 and 90 give an unrealized P&L of 20.\<close>

theorem update_position_atomic_witness:
  "update_position example_manager ''BTCUSDT_ETHUSDT'' 0 90 1 = example_manager
   \<and> update_position example_manager ''SOLUSDT_AVAXUSDT'' 110 90 1 = example_manager
   \<and> open_positions (update_position example_manager ''BTCUSDT_ETHUSDT'' 110 90 1)
       ''BTCUSDT_ETHUSDT''
     = Some (example_position\<lparr>current_price_a := 110, current_price_b := 90,
                               current_zscore := 1, unrealized_pnl := 20\<rparr>)"
proof -
  have h: "open_positions example_manager ''BTCUSDT_ETHUSDT'' = Some example_position"
    by (simp add: example_manager_def)
  have n: "open_positions example_manager ''SOLUSDT_AVAXUSDT'' = None"
    by (simp add: example_manager_def init_PositionManager_def)
  have a: "update_position example_manager ''BTCUSDT_ETHUSDT'' 0 90 1 = example_manager"
    using update_position_atomic [of example_manager "''BTCUSDT_ETHUSDT''" 0 90 1] by simp
  have b: "update_position example_manager ''SOLUSDT_AVAXUSDT'' 110 90 1 = example_manager"
    using update_position_atomic [of example_manager "''SOLUSDT_AVAXUSDT''" 110 90 1] n by simp
  have c: "open_positions (update_position example_manager ''BTCUSDT_ETHUSDT'' 110 90 1)
       ''BTCUSDT_ETHUSDT''
     = Some (example_position\<lparr>current_price_a := 110, current_price_b := 90,
                               current_zscore := 1, unrealized_pnl := 20\<rparr>)"
    using update_position_atomic [of example_manager "''BTCUSDT_ETHUSDT''" 110 90 1] h
    by (simp add: Let_def example_position_def new_position_def)
  from a b c show ?thesis by simp
qed

section \<open>OrderRateLimiter: the per-second limit\<close>

text \<open>
  C5.  No more than five \<^verbatim>\<open>acquire\<close> calls should be recorded within any one-second
  window.  \<^verbatim>\<open>acquire\<close> never refuses (\<open>acquire_flag\<close>): when five orders are already on
  record it sleeps a fifth of a second and then records the order under the clock
  value it read on entry.  Six calls ten milliseconds apart on a fresh limiter are all
  granted, the sixth after a wait of 0.2 seconds, and all six are on record within
  fifty milliseconds.
\<close>

theorem acquire_records_six_within_one_second:
  "recent_orders (limiter_run init_OrderRateLimiter burst) = [0, 10000, 20000, 30000, 40000, 50000]
   \<and> recorded_in_window (limiter_run init_OrderRateLimiter burst) 0 = 6
   \<and> fst (acquire (limiter_run init_OrderRateLimiter (butlast burst)) 50000) = True
   \<and> fst (snd (acquire (limiter_run init_OrderRateLimiter (butlast burst)) 50000)) = 1 / 5"
  by (simp add: burst_def limiter_run_def acquire_def init_OrderRateLimiter_def Let_def
       deque_append_def recorded_in_window_def total_seconds_def)

section \<open>RiskAgent and Orchestrator\<close>

text \<open>
  C2, as the code has it.  When the pre-trade risk check reports a violation, the
  decision that the candle-aware \<^verbatim>\<open>make_decision\<close> emits has action \<open>PAUSE\<close>, with
  confidence 1 and the violations as its reason, whether or not a position is open for
  the pair and whatever the strategies signalled.
\<close>

theorem make_decision_pauses_on_violation:
  assumes "\<not> fst (fst (check_risk_limits ag cfg current_positions dpnl account_balance))"
  shows "Decision.action (fst (make_decision ag cfg stats sym_a sym_b current_positions
            account_balance dpnl strategy_signal quant_hedge_ratio)) = PAUSE
       \<and> Decision.confidence (fst (make_decision ag cfg stats sym_a sym_b current_positions
            account_balance dpnl strategy_signal quant_hedge_ratio)) = 1
       \<and> reason (fst (make_decision ag cfg stats sym_a sym_b current_positions
            account_balance dpnl strategy_signal quant_hedge_ratio))
          = RiskViolations
              (snd (fst (check_risk_limits ag cfg current_positions dpnl account_balance)))"
proof -
  define d where "d = combine_agent_decisions
              (AggregatedSignal.action strategy_signal, AggregatedSignal.confidence strategy_signal)
              0.0 (find_position (sym_a @ ''_'' @ sym_b) current_positions)"
  obtain rr ag' where g:
    "get_recommendation ag cfg (Decision.action d) current_positions account_balance dpnl = (rr, ag')"
    by (cases "get_recommendation ag cfg (Decision.action d) current_positions account_balance dpnl")
  have rr: "rr = make_decision_response PAUSE
            (RiskViolations
               (snd (fst (check_risk_limits ag cfg current_positions dpnl account_balance)))) 1"
    using get_recommendation_unsafe [OF assms, of "Decision.action d"] g by simp
  have "fst (make_decision ag cfg stats sym_a sym_b current_positions
            account_balance dpnl strategy_signal quant_hedge_ratio) = rr"
    unfolding make_decision_def Let_def d_def [symmetric] g
    by (simp add: rr make_decision_response_def)
  then show ?thesis by (simp add: rr make_decision_response_def)
qed

text \<open>The amended C2 with one pair allowed and that pair already open: the check
  reports the position limit, and the decision is a pause.\<close>

theorem make_decision_pauses_on_violation_witness:
  "\<not> fst (fst (check_risk_limits example_agent example_config [example_position] 0 10000))
   \<and> Decision.action (fst (make_decision example_agent example_config None ''BTCUSDT'' ''ETHUSDT''
        [example_position] 10000 0 example_signal (Some 1))) = PAUSE"
proof -
  have h: "\<not> fst (fst (check_risk_limits example_agent example_config [example_position] 0 10000))"
    by (simp add: check_risk_limits_def example_config_def Let_def)
  from make_decision_pauses_on_violation [OF h, of None "''BTCUSDT''" "''ETHUSDT''"
      example_signal "Some 1"] h
  show ?thesis by simp
qed

text \<open>C2 as stated fails in both branches: with the pair open and the position limit
  reached the action is not \<open>CLOSE\<close>, and with no position and the daily loss limit
  breached the action is not \<open>HOLD\<close>.\<close>

theorem make_decision_violation_counterexample:
  "\<not> fst (fst (check_risk_limits example_agent example_config [example_position] 0 10000))
   \<and> find_position (''BTCUSDT'' @ ''_'' @ ''ETHUSDT'') [example_position] = Some example_position
   \<and> Decision.action (fst (make_decision example_agent example_config None ''BTCUSDT'' ''ETHUSDT''
        [example_position] 10000 0 example_signal (Some 1))) \<noteq> CLOSE
   \<and> \<not> fst (fst (check_risk_limits example_agent example_config [] (- 600) 10000))
   \<and> find_position (''BTCUSDT'' @ ''_'' @ ''ETHUSDT'') [] = None
   \<and> Decision.action (fst (make_decision example_agent example_config None ''BTCUSDT'' ''ETHUSDT''
        [] 10000 (- 600) example_signal (Some 1))) \<noteq> HOLD"
  by (simp add: make_decision_def find_position_def get_recommendation_def check_risk_limits_def
      combine_agent_decisions_def sentiment_to_action_def make_decision_response_def
      update_drawdown_def total_exposure_def position_exposure_def key_less_def
      example_agent_def example_config_def example_signal_def example_position_def
      new_position_def Let_def)

text \<open>
  C4.  \<^verbatim>\<open>should_close_position\<close> answers "do not close" whenever the position has been
  held for less than 30 seconds and the unrealized P&L is not below -100, and answers
  "close" whenever the unrealized P&L is below -100, whatever the holding time.
\<close>

theorem should_close_position_min_hold:
  "(total_seconds (now - Position.entry_time position) < 30 \<and> \<not> unrealized_pnl position < - 100
      \<longrightarrow> fst (fst (should_close_position zcfg max_holding_hours now position price_a price_b z))
            = False)
   \<and> (unrealized_pnl position < - 100
      \<longrightarrow> fst (fst (should_close_position zcfg max_holding_hours now position price_a price_b z))
            = True)"
  by (simp add: should_close_position_def MIN_HOLDING_SECONDS_def Let_def)

text \<open>C4 ten seconds after entry: the example position is kept at a z-score that would
  otherwise close it, and closed once its unrealized P&L is -150.\<close>

theorem should_close_position_min_hold_witness:
  "total_seconds (10000000 - Position.entry_time example_position) < 30
   \<and> \<not> unrealized_pnl example_position < - 100
   \<and> fst (fst (should_close_position example_zscore_config 24 10000000 example_position
                  100 100 0)) = False
   \<and> unrealized_pnl (example_position\<lparr>unrealized_pnl := - 150\<rparr>) < - 100
   \<and> fst (fst (should_close_position example_zscore_config 24 10000000
                  (example_position\<lparr>unrealized_pnl := - 150\<rparr>) 100 100 0)) = True"
proof -
  have h1: "total_seconds (10000000 - Position.entry_time example_position) < 30"
    by (simp add: total_seconds_def example_position_def new_position_def)
  have h2: "\<not> unrealized_pnl example_position < - 100"
    by (simp add: example_position_def new_position_def)
  have h3: "unrealized_pnl (example_position\<lparr>unrealized_pnl := - 150\<rparr>) < - 100"
    by simp
  from should_close_position_min_hold [of 10000000 example_position example_zscore_config 24
      100 100 0] h1 h2
  have a: "fst (fst (should_close_position example_zscore_config 24 10000000 example_position
                  100 100 0)) = False"
    by simp
  from should_close_position_min_hold [of 10000000 "example_position\<lparr>unrealized_pnl := - 150\<rparr>"
      example_zscore_config 24 100 100 0] h3
  have b: "fst (fst (should_close_position example_zscore_config 24 10000000
                  (example_position\<lparr>unrealized_pnl := - 150\<rparr>) 100 100 0)) = True"
    by simp
  from h1 h2 h3 a b show ?thesis by simp
qed

text \<open>
  C8.  \<^verbatim>\<open>calculate_position_size\<close> is monotonic non-decreasing in the signal
  confidence: with configuration, performance statistics, pair, balance and volatility
  fixed, a confidence \<open>c1 \<le> c2\<close> never gets the larger size; and the two legs always get
  the same size.  Confidences are not negative (signals carry values in [0, 1]); for a
  non-negative configured base size the statement holds for every real confidence.
\<close>

theorem calculate_position_size_monotone:
  assumes "0 \<le> c1 \<or> 0 \<le> max_position_size cfg" and "c1 \<le> c2"
  shows "fst (calculate_position_size cfg stats pid account_balance c1 volatility)
           \<le> fst (calculate_position_size cfg stats pid account_balance c2 volatility)
         \<and> fst (calculate_position_size cfg stats pid account_balance c1 volatility)
           = snd (calculate_position_size cfg stats pid account_balance c1 volatility)
         \<and> fst (calculate_position_size cfg stats pid account_balance c2 volatility)
           = snd (calculate_position_size cfg stats pid account_balance c2 volatility)"
proof -
  have "0 \<le> c1 \<or> 0 \<le> dynamic_base_size cfg stats"
    using assms(1) dynamic_base_size_nonneg by blast
  from sized_mono [OF vol_multiplier_pos this assms(2)]
  show ?thesis by (simp add: calculate_position_size_def Let_def)
qed

text \<open>C8 at confidences 0.2 and 0.9 with a balance of 100000: the sizes are 600 and
  950 on both legs.\<close>

theorem calculate_position_size_monotone_witness:
  "((0::real) \<le> 0.2 \<or> 0 \<le> max_position_size example_config) \<and> (0.2::real) \<le> 0.9
   \<and> calculate_position_size example_config None ''BTCUSDT_ETHUSDT'' 100000 0.2 None = (600, 600)
   \<and> calculate_position_size example_config None ''BTCUSDT_ETHUSDT'' 100000 0.9 None = (950, 950)
   \<and> fst (calculate_position_size example_config None ''BTCUSDT_ETHUSDT'' 100000 0.2 None)
       \<le> fst (calculate_position_size example_config None ''BTCUSDT_ETHUSDT'' 100000 0.9 None)"
proof -
  have h1: "(0::real) \<le> 0.2 \<or> 0 \<le> max_position_size example_config" by simp
  have h2: "(0.2::real) \<le> 0.9" by simp
  have v: "calculate_position_size example_config None ''BTCUSDT_ETHUSDT'' 100000 0.2 None = (600, 600)"
    "calculate_position_size example_config None ''BTCUSDT_ETHUSDT'' 100000 0.9 None = (950, 950)"
    by (simp_all add: calculate_position_size_def dynamic_base_size_def vol_multiplier_def
        example_config_def Let_def)
  from calculate_position_size_monotone [OF h1 h2, of None "''BTCUSDT_ETHUSDT''" 100000 None]
  have "fst (calculate_position_size example_config None ''BTCUSDT_ETHUSDT'' 100000 0.2 None)
       \<le> fst (calculate_position_size example_config None ''BTCUSDT_ETHUSDT'' 100000 0.9 None)"
    by simp
  with h1 h2 v show ?thesis by simp
qed

section \<open>StrategyManager: consensus aggregation\<close>

text \<open>
  C3, as the code has it.  \<open>HOLD\<close> signals are votes like any other, and the action with
  the most votes wins.  So in consensus mode, for the four strategy signals, any
  confidences, any weights and either value of the breakout flag: if exactly one strategy
  signals an action other than \<open>HOLD\<close>, the three \<open>HOLD\<close> votes win and the aggregated
  action is \<open>HOLD\<close> with consensus \<open>MODERATE\<close>; and if two strategies signal the two
  opposing entry actions while the other two signal \<open>HOLD\<close>, the two \<open>HOLD\<close> votes win
  over one vote each, so the aggregated action is \<open>HOLD\<close> and the consensus label is
  \<open>MODERATE\<close> (two of four votes), at equal weighted confidence as at any other.
\<close>

theorem consensus_hold_votes_win:
  "(length (signalled [a1, a2, a3, a4]) = 1
      \<longrightarrow> AggregatedSignal.action
            (generate_aggregated_signal w b (four_signals (a1, c1) (a2, c2) (a3, c3) (a4, c4)))
          = HOLD
        \<and> consensus
            (generate_aggregated_signal w b (four_signals (a1, c1) (a2, c2) (a3, c3) (a4, c4)))
          = MODERATE)
   \<and> (signalled [a1, a2, a3, a4] = [LONG_SPREAD, SHORT_SPREAD]
       \<or> signalled [a1, a2, a3, a4] = [SHORT_SPREAD, LONG_SPREAD]
      \<longrightarrow> AggregatedSignal.action
            (generate_aggregated_signal w b (four_signals (a1, c1) (a2, c2) (a3, c3) (a4, c4)))
          = HOLD
        \<and> consensus
            (generate_aggregated_signal w b (four_signals (a1, c1) (a2, c2) (a3, c3) (a4, c4)))
          = MODERATE)"
proof (intro conjI impI)
  assume "length (signalled [a1, a2, a3, a4]) = 1"
  from agg_single [OF this]
  show "AggregatedSignal.action
            (generate_aggregated_signal w b (four_signals (a1, c1) (a2, c2) (a3, c3) (a4, c4)))
          = HOLD"
    and "consensus
            (generate_aggregated_signal w b (four_signals (a1, c1) (a2, c2) (a3, c3) (a4, c4)))
          = MODERATE"
    by simp_all
next
  assume "signalled [a1, a2, a3, a4] = [LONG_SPREAD, SHORT_SPREAD]
       \<or> signalled [a1, a2, a3, a4] = [SHORT_SPREAD, LONG_SPREAD]"
  then have "AggregatedSignal.action
            (generate_aggregated_signal w b (four_signals (a1, c1) (a2, c2) (a3, c3) (a4, c4)))
          = HOLD
        \<and> consensus
            (generate_aggregated_signal w b (four_signals (a1, c1) (a2, c2) (a3, c3) (a4, c4)))
          = MODERATE"
  proof
    assume "signalled [a1, a2, a3, a4] = [LONG_SPREAD, SHORT_SPREAD]"
    then show ?thesis by (rule agg_opposed) simp_all
  next
    assume "signalled [a1, a2, a3, a4] = [SHORT_SPREAD, LONG_SPREAD]"
    then show ?thesis by (rule agg_opposed) simp_all
  qed
  then show "AggregatedSignal.action
            (generate_aggregated_signal w b (four_signals (a1, c1) (a2, c2) (a3, c3) (a4, c4)))
          = HOLD"
    and "consensus
            (generate_aggregated_signal w b (four_signals (a1, c1) (a2, c2) (a3, c3) (a4, c4)))
          = MODERATE"
    by simp_all
qed

text \<open>The amended C3 with the initial weights: one long signal against three holds,
  and a long against a short at equal weighted confidence 0.24.\<close>

theorem consensus_hold_votes_win_witness:
  "length (signalled [LONG_SPREAD, HOLD, HOLD, HOLD]) = 1
   \<and> AggregatedSignal.action (generate_aggregated_signal initial_weights False
       (four_signals (LONG_SPREAD, 0.9) (HOLD, 0.5) (HOLD, 0.5) (HOLD, 0.5))) = HOLD
   \<and> signalled [LONG_SPREAD, SHORT_SPREAD, HOLD, HOLD] = [LONG_SPREAD, SHORT_SPREAD]
   \<and> consensus (generate_aggregated_signal initial_weights False
       (four_signals (LONG_SPREAD, 0.6) (SHORT_SPREAD, 0.8) (HOLD, 0.5) (HOLD, 0.5))) = MODERATE"
proof -
  have h1: "length (signalled [LONG_SPREAD, HOLD, HOLD, HOLD]) = 1"
    by (simp add: signalled_def)
  have h2: "signalled [LONG_SPREAD, SHORT_SPREAD, HOLD, HOLD] = [LONG_SPREAD, SHORT_SPREAD]"
    by (simp add: signalled_def)
  from consensus_hold_votes_win [of LONG_SPREAD HOLD HOLD HOLD initial_weights False
      "0.9" "0.5" "0.5" "0.5"] h1
  have a: "AggregatedSignal.action (generate_aggregated_signal initial_weights False
       (four_signals (LONG_SPREAD, 0.9) (HOLD, 0.5) (HOLD, 0.5) (HOLD, 0.5))) = HOLD"
    by blast
  from consensus_hold_votes_win [of LONG_SPREAD SHORT_SPREAD HOLD HOLD initial_weights False
      "0.6" "0.8" "0.5" "0.5"] h2
  have b: "consensus (generate_aggregated_signal initial_weights False
       (four_signals (LONG_SPREAD, 0.6) (SHORT_SPREAD, 0.8) (HOLD, 0.5) (HOLD, 0.5))) = MODERATE"
    by blast
  from h1 a h2 b show ?thesis by blast
qed

text \<open>C3 as stated fails in both parts: the single long signal does not become the
  aggregated action, and the long and the short at equal weighted confidence are not
  labelled \<open>CONFLICTING\<close>.\<close>

theorem consensus_single_signal_counterexample:
  "AggregatedSignal.action (generate_aggregated_signal initial_weights False
       (four_signals (LONG_SPREAD, 0.9) (HOLD, 0.5) (HOLD, 0.5) (HOLD, 0.5))) \<noteq> LONG_SPREAD
   \<and> (0.6::real) * initial_weights engle_granger = 0.8 * initial_weights orderbook_imbalance
   \<and> consensus (generate_aggregated_signal initial_weights False
       (four_signals (LONG_SPREAD, 0.6) (SHORT_SPREAD, 0.8) (HOLD, 0.5) (HOLD, 0.5)))
       \<noteq> CONFLICTING"
  by (simp add: agg_defs)

section \<open>Engle-Granger strategy: the cointegration gate\<close>

text \<open>
  C6, as the code has it.  The exit rules come before the cointegration gate.  When no
  position is held (\<^verbatim>\<open>current_position\<close> is \<open>None\<close> or empty) and the ADF p-value on the
  windowed residuals is at least 0.20, the returned action is \<open>HOLD\<close>.  When a position
  is held and both series have the minimum number of samples, the p-value is not
  consulted: the action is \<open>CLOSE\<close> exactly when the absolute z-score is above the
  stop-loss threshold or below the exit threshold, and \<open>HOLD\<close> otherwise.  With fewer
  samples than the minimum in either series the action is \<open>HOLD\<close>, position or not.
\<close>

theorem generate_signal_not_cointegrated:
  "(0.20 \<le> st_adf_pvalue st \<and> \<not> holds_position current_position
      \<longrightarrow> EngleGrangerSignal.action (generate_signal strat len_a len_b (Some st) current_position)
            = HOLD)
   \<and> (holds_position current_position
        \<and> min_data_points strat \<le> len_a \<and> min_data_points strat \<le> len_b
      \<longrightarrow> EngleGrangerSignal.action (generate_signal strat len_a len_b (Some st) current_position)
            = (if \<bar>st_zscore st\<bar> > zscore_stoploss strat \<or> \<bar>st_zscore st\<bar> < zscore_exit strat
               then CLOSE else HOLD))
   \<and> (len_a < min_data_points strat \<or> len_b < min_data_points strat
      \<longrightarrow> EngleGrangerSignal.action (generate_signal strat len_a len_b (Some st) current_position)
            = HOLD)"
  by (simp add: generate_signal_def eg_signal_def eg_blank_def Let_def)

text \<open>The amended C6 at p-value 0.5 on sixty samples: without a position the action is
  a hold; with one it is a close at z-score 0 (below the exit threshold 0.3), a hold at
  z-score 1 and a close at z-score 4 (above the stop-loss threshold 3.5); on ten samples
  it is a hold.\<close>

theorem generate_signal_not_cointegrated_witness:
  "0.20 \<le> st_adf_pvalue example_statistics \<and> \<not> holds_position None
   \<and> EngleGrangerSignal.action
       (generate_signal init_EngleGrangerStrategy 60 60 (Some example_statistics) None) = HOLD
   \<and> holds_position (Some ''LONG_SPREAD'')
   \<and> min_data_points init_EngleGrangerStrategy \<le> 60
   \<and> EngleGrangerSignal.action
       (generate_signal init_EngleGrangerStrategy 60 60 (Some example_statistics)
          (Some ''LONG_SPREAD'')) = CLOSE
   \<and> EngleGrangerSignal.action
       (generate_signal init_EngleGrangerStrategy 60 60
          (Some (example_statistics\<lparr>st_zscore := 1\<rparr>)) (Some ''LONG_SPREAD'')) = HOLD
   \<and> EngleGrangerSignal.action
       (generate_signal init_EngleGrangerStrategy 60 60
          (Some (example_statistics\<lparr>st_zscore := 4\<rparr>)) (Some ''LONG_SPREAD'')) = CLOSE
   \<and> 10 < min_data_points init_EngleGrangerStrategy
   \<and> EngleGrangerSignal.action
       (generate_signal init_EngleGrangerStrategy 10 60 (Some example_statistics)
          (Some ''LONG_SPREAD'')) = HOLD"
proof -
  have h1: "0.20 \<le> st_adf_pvalue example_statistics" by (simp add: example_statistics_def)
  have h2: "\<not> holds_position None" by (simp add: holds_position_def)
  have h3: "holds_position (Some ''LONG_SPREAD'')" by (simp add: holds_position_def)
  have h4: "min_data_points init_EngleGrangerStrategy \<le> 60"
    by (simp add: init_EngleGrangerStrategy_def)
  have h5: "10 < min_data_points init_EngleGrangerStrategy"
    by (simp add: init_EngleGrangerStrategy_def)
  from generate_signal_not_cointegrated [of example_statistics None init_EngleGrangerStrategy
      60 60] h1 h2
  have a: "EngleGrangerSignal.action
       (generate_signal init_EngleGrangerStrategy 60 60 (Some example_statistics) None) = HOLD"
    by blast
  from generate_signal_not_cointegrated [of example_statistics "Some ''LONG_SPREAD''"
      init_EngleGrangerStrategy 60 60] h3 h4
  have b: "EngleGrangerSignal.action
       (generate_signal init_EngleGrangerStrategy 60 60 (Some example_statistics)
          (Some ''LONG_SPREAD'')) = CLOSE"
    by (simp add: example_statistics_def init_EngleGrangerStrategy_def)
  from generate_signal_not_cointegrated [of "example_statistics\<lparr>st_zscore := 1\<rparr>"
      "Some ''LONG_SPREAD''" init_EngleGrangerStrategy 60 60] h3 h4
  have c: "EngleGrangerSignal.action
       (generate_signal init_EngleGrangerStrategy 60 60
          (Some (example_statistics\<lparr>st_zscore := 1\<rparr>)) (Some ''LONG_SPREAD'')) = HOLD"
    by (simp add: init_EngleGrangerStrategy_def)
  from generate_signal_not_cointegrated [of "example_statistics\<lparr>st_zscore := 4\<rparr>"
      "Some ''LONG_SPREAD''" init_EngleGrangerStrategy 60 60] h3 h4
  have d: "EngleGrangerSignal.action
       (generate_signal init_EngleGrangerStrategy 60 60
          (Some (example_statistics\<lparr>st_zscore := 4\<rparr>)) (Some ''LONG_SPREAD'')) = CLOSE"
    by (simp add: init_EngleGrangerStrategy_def)
  from generate_signal_not_cointegrated [of example_statistics "Some ''LONG_SPREAD''"
      init_EngleGrangerStrategy 10 60] h5
  have e: "EngleGrangerSignal.action
       (generate_signal init_EngleGrangerStrategy 10 60 (Some example_statistics)
          (Some ''LONG_SPREAD'')) = HOLD"
    by blast
  from h1 h2 h3 h4 h5 a b c d e show ?thesis by blast
qed

text \<open>C6 as stated fails when a position is held: at p-value 0.5 and z-score 0 the
  strategy returns \<open>CLOSE\<close>.\<close>

theorem generate_signal_with_position_counterexample:
  "0.20 \<le> st_adf_pvalue example_statistics
   \<and> EngleGrangerSignal.action
       (generate_signal init_EngleGrangerStrategy 60 60 (Some example_statistics)
          (Some ''LONG_SPREAD'')) = CLOSE"
  by (simp add: generate_signal_def init_EngleGrangerStrategy_def example_statistics_def
      holds_position_def eg_signal_def Let_def)

section \<open>Price history: throttle and bound\<close>

text \<open>
  C9.  For every symbol, one run of the price update either leaves the stored series as
  it was or appends the sample \<open>(now, price)\<close>; it appends only for a positive price and
  only if the last stored sample is at least one second (1000000 microseconds) older
  than now; what is stored afterwards is the old series with the new sample at the end,
  cut from the front (oldest first), and is at most 10000 long.  A series of at most
  10000 samples stays at most 10000 long through one update, and through every sequence
  of updates when all series start within the bound.
\<close>

theorem update_price_data_invariants:
  "(stored_series (update_price_data symbols latest_prices now price_data) sy
            \<noteq> stored_series price_data sy
          \<longrightarrow> 0 < get_price latest_prices sy
              \<and> (stored_series price_data sy \<noteq> []
                   \<longrightarrow> 1000000 \<le> now - fst (last (stored_series price_data sy)))
              \<and> stored_series (update_price_data symbols latest_prices now price_data) sy
                 = drop (Suc (length (stored_series price_data sy)) - 10000)
                     (stored_series price_data sy @ [(now, get_price latest_prices sy)])
              \<and> length (stored_series (update_price_data symbols latest_prices now price_data) sy)
                 \<le> 10000)
       \<and> (length (stored_series price_data sy) \<le> 10000
          \<longrightarrow> length (stored_series (update_price_data symbols latest_prices now price_data) sy)
              \<le> 10000)
       \<and> ((\<forall>s. length (stored_series price_data s) \<le> 10000)
          \<longrightarrow> length (stored_series (run_updates symbols price_data updates) sy) \<le> 10000)"
proof (intro conjI impI)
  assume changed: "stored_series (update_price_data symbols latest_prices now price_data) sy
            \<noteq> stored_series price_data sy"
  from stored_series_step [of symbols latest_prices now price_data sy] changed
  have app: "0 < get_price latest_prices sy"
    "1000000 \<le> now - last_time (stored_series price_data sy)"
    "stored_series (update_price_data symbols latest_prices now price_data) sy
       = drop (Suc (length (stored_series price_data sy)) - MAX_POINTS)
           (stored_series price_data sy @ [(now, get_price latest_prices sy)])"
    by auto
  show "0 < get_price latest_prices sy" by (rule app(1))
  show "1000000 \<le> now - fst (last (stored_series price_data sy))"
    if "stored_series price_data sy \<noteq> []"
    using app(2) that by (simp add: last_time_def)
  show "stored_series (update_price_data symbols latest_prices now price_data) sy
                 = drop (Suc (length (stored_series price_data sy)) - 10000)
                     (stored_series price_data sy @ [(now, get_price latest_prices sy)])"
    using app(3) by (simp add: MAX_POINTS_def)
  show "length (stored_series (update_price_data symbols latest_prices now price_data) sy)
                 \<le> 10000"
    using app(3) by (simp add: MAX_POINTS_def)
next
  assume "length (stored_series price_data sy) \<le> 10000"
  then show "length (stored_series (update_price_data symbols latest_prices now price_data) sy)
              \<le> 10000"
    using step_length [of price_data sy symbols latest_prices now] by (simp add: MAX_POINTS_def)
next
  assume "\<forall>s. length (stored_series price_data s) \<le> 10000"
  then show "length (stored_series (run_updates symbols price_data updates) sy) \<le> 10000"
    using run_length [of price_data symbols updates sy] by (simp add: MAX_POINTS_def)
qed

text \<open>C9 on the example store: a price 1.5 seconds after the stored sample is
  appended, and a second update half a second later is throttled.\<close>

theorem update_price_data_invariants_witness:
  "stored_series (update_price_data [''BTCUSDT''] example_latest_prices 2500000
        example_price_data) ''BTCUSDT'' \<noteq> stored_series example_price_data ''BTCUSDT''
   \<and> stored_series example_price_data ''BTCUSDT'' \<noteq> []
   \<and> (1000000::int) \<le> 2500000 - fst (last (stored_series example_price_data ''BTCUSDT''))
   \<and> (\<forall>s. length (stored_series example_price_data s) \<le> 10000)
   \<and> length (stored_series (run_updates [''BTCUSDT''] example_price_data
               [(2500000, example_latest_prices), (3000000, example_latest_prices)])
             ''BTCUSDT'') \<le> 10000
   \<and> stored_series (run_updates [''BTCUSDT''] example_price_data
               [(2500000, example_latest_prices), (3000000, example_latest_prices)])
             ''BTCUSDT'' = [(1000000, 100), (2500000, 101)]"
proof -
  have h1: "stored_series (update_price_data [''BTCUSDT''] example_latest_prices 2500000
        example_price_data) ''BTCUSDT'' \<noteq> stored_series example_price_data ''BTCUSDT''"
    by (simp add: update_price_data_def update_symbol_def stored_series_def get_price_def
        last_time_def total_seconds_def MAX_POINTS_def example_price_data_def
        example_latest_prices_def Let_def)
  have h2: "stored_series example_price_data ''BTCUSDT'' \<noteq> []"
    by (simp add: stored_series_def example_price_data_def)
  have h3: "\<forall>s. length (stored_series example_price_data s) \<le> 10000"
    by (simp add: stored_series_def example_price_data_def)
  note t = update_price_data_invariants [of "[''BTCUSDT'']" example_latest_prices 2500000
      example_price_data "''BTCUSDT''"
      "[(2500000, example_latest_prices), (3000000, example_latest_prices)]"]
  from t h1 h2
  have a: "(1000000::int) \<le> 2500000 - fst (last (stored_series example_price_data ''BTCUSDT''))"
    by blast
  from t h3
  have b: "length (stored_series (run_updates [''BTCUSDT''] example_price_data
               [(2500000, example_latest_prices), (3000000, example_latest_prices)])
             ''BTCUSDT'') \<le> 10000"
    by blast
  have c: "stored_series (run_updates [''BTCUSDT''] example_price_data
               [(2500000, example_latest_prices), (3000000, example_latest_prices)])
             ''BTCUSDT'' = [(1000000, 100), (2500000, 101)]"
    by (simp add: update_price_data_def update_symbol_def stored_series_def get_price_def
        last_time_def total_seconds_def MAX_POINTS_def example_price_data_def
        example_latest_prices_def Let_def)
  from h1 h2 a h3 b c show ?thesis by blast
qed

end
